theory Spec2Isabelle
  imports Complex_Main
begin

section \<open>The chart creation handler of app.py\<close>

text \<open>
  The development embeds the block of \<^verbatim>\<open>app.py\<close> that turns the text returned by the
  language model into an Altair chart (lines 187 to 252). Python strings are character
  lists; the values \<^verbatim>\<open>json.loads\<close> returns are the type \<open>json\<close>; every exception the
  block can raise, and the \<^verbatim>\<open>st.error\<close> of line 213, is a value of the type \<open>error\<close>.
\<close>

subsection \<open>Python values\<close>

text \<open>
  What \<^verbatim>\<open>json.loads\<close> can return: \<^verbatim>\<open>None\<close>, a bool, an int, a float, a str, a list or a
  dict whose keys are strings. A dict is an association list read with \<open>map_of\<close>. Of a
  float the handler only ever inspects whether it is zero.
\<close>

datatype json =
    JNull
  | JBool bool
  | JInt int
  | JFloat real
  | JString string
  | JArray "json list"
  | JObject "(string \<times> json) list"

text \<open>Truth value testing, as in \<^verbatim>\<open>if agg:\<close> and \<^verbatim>\<open>if color and ...\<close>.\<close>

fun truthy :: "json \<Rightarrow> bool" where
  "truthy JNull = False"
| "truthy (JBool b) = b"
| "truthy (JInt i) = (i \<noteq> 0)"
| "truthy (JFloat r) = (r \<noteq> 0)"
| "truthy (JString s) = (s \<noteq> [])"
| "truthy (JArray vs) = (vs \<noteq> [])"
| "truthy (JObject kvs) = (kvs \<noteq> [])"

text \<open>Lists and dicts have no hash; every other value has one.\<close>

fun hashable :: "json \<Rightarrow> bool" where
  "hashable (JArray vs) = False"
| "hashable (JObject kvs) = False"
| "hashable v = True"

text \<open>
  The failures of the block. The first three are raised inside the \<^verbatim>\<open>try\<close>: the two
  \<^verbatim>\<open>ValueError\<close>s of lines 194 and 200 and the decoder's error of line 203, with its
  message. \<open>InvalidFields\<close> is the \<^verbatim>\<open>st.error\<close> of line 213, whose message shows both
  \<^verbatim>\<open>x\<close> and \<^verbatim>\<open>y\<close>. \<open>TypeError\<close> is raised by a membership test on a value without a
  hash, \<open>AttributeError\<close> by a method call on a value that lacks the method.
\<close>

datatype error =
    EmptyResponse
  | NoJsonFound
  | MalformedJson string
  | InvalidFields json json
  | TypeError
  | AttributeError

subsection \<open>String operations\<close>

text \<open>
  \<^verbatim>\<open>str.isspace\<close> on the characters below 256: tab to carriage return, the four
  separators 28 to 31, the space, NEL and the no-break space.
\<close>

definition isspace :: "char \<Rightarrow> bool" where
  "isspace c = ((of_char c :: nat) \<in> {9, 10, 11, 12, 13, 28, 29, 30, 31, 32, 133, 160})"

definition strip :: "string \<Rightarrow> string" where
  "strip s = rev (dropWhile isspace (rev (dropWhile isspace s)))"

text \<open>\<^verbatim>\<open>str.find\<close> and \<^verbatim>\<open>str.rfind\<close> of a single character: the index, or -1.\<close>

definition find_char :: "string \<Rightarrow> char \<Rightarrow> int" where
  "find_char s c = (if c \<in> set s then int (length (takeWhile (\<lambda>d. d \<noteq> c) s)) else - 1)"

definition rfind_char :: "string \<Rightarrow> char \<Rightarrow> int" where
  "rfind_char s c =
     (if c \<in> set s then int (length s) - 1 - int (length (takeWhile (\<lambda>d. d \<noteq> c) (rev s)))
      else - 1)"

text \<open>
  The slice \<^verbatim>\<open>s[i:j]\<close>: a negative bound counts from the end, both bounds are clamped
  to the string, and a stop at or before the start gives the empty string.
\<close>

definition slice :: "string \<Rightarrow> int \<Rightarrow> int \<Rightarrow> string" where
  "slice s i j =
     (let n = int (length s);
          lo = max 0 (min n (if i < 0 then i + n else i));
          hi = max 0 (min n (if j < 0 then j + n else j))
      in take (nat (hi - lo)) (drop (nat lo) s))"

text \<open>
  The strings of the replies, of the column labels and of the shorthands are lists of
  characters, each a code point below 256. \<^verbatim>\<open>str.capitalize\<close> can leave that range, so
  its result is a list of code points; \<open>codes\<close> gives the code points of a string.
\<close>

definition codes :: "string \<Rightarrow> nat list" where
  "codes s = map of_char s"

text \<open>
  \<^verbatim>\<open>str.capitalize\<close> (Python 3.8 and later) puts the first character in title case and
  the others in lower case. Below 256 the letters with an upper case are \<open>a\<close> to \<open>z\<close>
  and 224 to 254 without the division sign 247, 32 above their capitals; the sharp s
  223 becomes \<open>Ss\<close>, the micro sign 181 the Greek capital mu 924, and the y with
  diaeresis 255 its capital 376. The capitals 65 to 90 and 192 to 222, without the
  multiplication sign 215, have their lower case 32 above; no other character below 256
  changes.
\<close>

definition title_case :: "char \<Rightarrow> nat list" where
  "title_case c =
     (let n = (of_char c :: nat)
      in if (97 \<le> n \<and> n \<le> 122) \<or> (224 \<le> n \<and> n \<le> 254 \<and> n \<noteq> 247) then [n - 32]
         else if n = 223 then [83, 115]
         else if n = 181 then [924]
         else if n = 255 then [376]
         else [n])"

definition lower_case :: "char \<Rightarrow> nat" where
  "lower_case c =
     (let n = (of_char c :: nat)
      in if (65 \<le> n \<and> n \<le> 90) \<or> (192 \<le> n \<and> n \<le> 222 \<and> n \<noteq> 215) then n + 32
         else n)"

fun capitalize :: "string \<Rightarrow> nat list" where
  "capitalize [] = []"
| "capitalize (c # cs) = title_case c @ map lower_case cs"

subsection \<open>The data frame\<close>

text \<open>
  Of the frame \<^verbatim>\<open>filtered\<close> the handler reads the column labels and the dtype of a
  column. Lines 218 to 223 tell three cases apart: a datetime dtype, the dtype
  \<^verbatim>\<open>object\<close>, and everything else.
\<close>

datatype dtype = Datetime64 | Object | OtherDtype

type_synonym frame = "string \<rightharpoonup> dtype"

text \<open>
  \<^verbatim>\<open>v in filtered.columns\<close>. The index first takes \<^verbatim>\<open>hash(v)\<close>, which raises
  \<^verbatim>\<open>TypeError\<close> on a list or a dict; a string is then looked up among the labels, and
  no other value is a label.
\<close>

definition in_columns :: "frame \<Rightarrow> json \<Rightarrow> error + bool" where
  "in_columns df v =
     (if \<not> hashable v then Inl TypeError
      else case v of JString s \<Rightarrow> Inr (df s \<noteq> None) | _ \<Rightarrow> Inr False)"

subsection \<open>The chart\<close>

datatype mark = MarkLine bool | MarkPoint | MarkBar

text \<open>
  The chart handed to \<^verbatim>\<open>st.altair_chart\<close>: the mark, the shorthand of the x channel,
  the shorthand and title of the y channel, the shorthand of the colour channel when
  there is one, and the two properties. The title of the y channel can hold a
  capitalized word, so it is a list of code points.
\<close>

record chart =
  mark :: mark
  enc_x :: string
  enc_y :: "string \<times> nat list"
  enc_color :: "string option"
  height :: nat
  title :: string

text \<open>The five locals of lines 206 to 210.\<close>

record fields =
  f_chart_type :: json
  f_x :: json
  f_y :: json
  f_color :: json
  f_agg :: json

text \<open>\<^verbatim>\<open>spec.get(key, default)\<close>.\<close>

definition get :: "(string \<times> json) list \<Rightarrow> string \<Rightarrow> json \<Rightarrow> json" where
  "get spec k d = (case map_of spec k of None \<Rightarrow> d | Some v \<Rightarrow> v)"

definition get_fields :: "(string \<times> json) list \<Rightarrow> fields" where
  "get_fields spec =
     \<lparr> f_chart_type = get spec ''chart_type'' (JString ''bar''),
       f_x = get spec ''x'' (JString ''Category''),
       f_y = get spec ''y'' (JString ''Sales''),
       f_color = get spec ''color'' JNull,
       f_agg = get spec ''aggregate'' (JString ''sum'') \<rparr>"

text \<open>
  Line 212: \<^verbatim>\<open>x not in filtered.columns or y not in filtered.columns\<close>. The second test
  runs only when the first is false.
\<close>

definition fields_invalid :: "frame \<Rightarrow> json \<Rightarrow> json \<Rightarrow> error + bool" where
  "fields_invalid df xv yv =
     (case in_columns df xv of
        Inl e \<Rightarrow> Inl e
      | Inr bx \<Rightarrow> if \<not> bx then Inr True
                 else (case in_columns df yv of Inl e \<Rightarrow> Inl e | Inr b \<Rightarrow> Inr (\<not> b)))"

text \<open>Lines 218 to 223, for a column label \<open>xs\<close>.\<close>

definition x_encoding :: "frame \<Rightarrow> string \<Rightarrow> string" where
  "x_encoding df xs =
     (if df xs = Some Datetime64 then xs @ '':T''
      else if df xs = Some Object then xs @ '':N''
      else xs @ '':Q'')"

text \<open>
  Lines 226 to 229, for a column label \<open>ys\<close>. Only a string has \<^verbatim>\<open>capitalize\<close>, so any
  other truthy aggregate raises when the title is built.
\<close>

definition y_encoding :: "json \<Rightarrow> string \<Rightarrow> error + string \<times> nat list" where
  "y_encoding agg ys =
     (if truthy agg then
        (case agg of
           JString a \<Rightarrow>
             Inr (a @ ''('' @ ys @ ''):Q'', capitalize a @ codes '' of '' @ codes ys)
         | _ \<Rightarrow> Inl AttributeError)
      else Inr (ys @ ''):Q'', codes ys))"

text \<open>
  Lines 231 and 232: \<^verbatim>\<open>if color and color in filtered.columns\<close>. The membership test
  runs only on a truthy colour; a label is a string.
\<close>

definition color_encoding :: "frame \<Rightarrow> json \<Rightarrow> error + string option" where
  "color_encoding df color =
     (if truthy color then
        (case in_columns df color of
           Inl e \<Rightarrow> Inl e
         | Inr b \<Rightarrow> (case color of
                      JString cs \<Rightarrow> Inr (if b then Some (cs @ '':N'') else None)
                    | _ \<Rightarrow> Inr None))
      else Inr None)"

text \<open>Lines 234 to 239.\<close>

definition base_chart :: "json \<Rightarrow> mark" where
  "base_chart chart_type =
     (if chart_type = JString ''line'' then MarkLine True
      else if chart_type = JString ''scatter'' then MarkPoint
      else MarkBar)"

text \<open>Lines 212 to 249: the validation and the chart, in the order of the source.\<close>

definition render :: "frame \<Rightarrow> string \<Rightarrow> fields \<Rightarrow> error + chart" where
  "render df chart_query f =
     (case fields_invalid df (f_x f) (f_y f) of
        Inl e \<Rightarrow> Inl e
      | Inr True \<Rightarrow> Inl (InvalidFields (f_x f) (f_y f))
      | Inr False \<Rightarrow>
          (case (f_x f, f_y f) of
             (JString xs, JString ys) \<Rightarrow>
               (case y_encoding (f_agg f) ys of
                  Inl e \<Rightarrow> Inl e
                | Inr ye \<Rightarrow>
                    (case color_encoding df (f_color f) of
                       Inl e \<Rightarrow> Inl e
                     | Inr ce \<Rightarrow>
                         Inr \<lparr> mark = base_chart (f_chart_type f),
                               enc_x = x_encoding df xs,
                               enc_y = ye,
                               enc_color = ce,
                               height = 350,
                               title = ''Gemini chart: '' @ chart_query \<rparr>))
           | _ \<Rightarrow> Inl (InvalidFields (f_x f) (f_y f))))"

text \<open>Lines 193 to 202: the two gates and the slice from the first \<open>{\<close> to the last \<open>}\<close>.\<close>

definition extract_json :: "string \<Rightarrow> error + string" where
  "extract_json raw =
     (if raw = [] then Inl EmptyResponse
      else let start = find_char raw (CHR ''{''); stop = rfind_char raw (CHR ''}'')
           in if start = - 1 \<or> stop = - 1 then Inl NoJsonFound
              else Inr (slice raw start (stop + 1)))"

text \<open>
  \<^verbatim>\<open>json.loads\<close> belongs to the standard library, so the handler takes the decoder as a
  parameter: it returns the decoded value, or the message of the error it raises.
  Line 206 calls \<^verbatim>\<open>spec.get\<close>, which only a dict has. The argument \<open>raw\<close> is the
  stripped text of line 187.
\<close>

type_synonym decoder = "string \<Rightarrow> string + json"

definition chart_spec :: "decoder \<Rightarrow> frame \<Rightarrow> string \<Rightarrow> string \<Rightarrow> error + chart" where
  "chart_spec loads df chart_query raw =
     (case extract_json raw of
        Inl e \<Rightarrow> Inl e
      | Inr raw_json \<Rightarrow>
          (case loads raw_json of
             Inl msg \<Rightarrow> Inl (MalformedJson msg)
           | Inr (JObject spec) \<Rightarrow> render df chart_query (get_fields spec)
           | Inr _ \<Rightarrow> Inl AttributeError))"

subsection \<open>Sample data\<close>

text \<open>
  The columns the system prompt and the chat block name, with the dtypes \<^verbatim>\<open>load_data\<close>
  gives them.
\<close>

definition orders :: frame where
  "orders =
     map_of
       [(''Order Date'', Datetime64), (''Ship Date'', Datetime64),
        (''Region'', Object), (''Segment'', Object), (''Category'', Object),
        (''Sub-Category'', Object), (''Ship Mode'', Object),
        (''Sales'', OtherDtype), (''Profit'', OtherDtype),
        (''Quantity'', OtherDtype), (''Discount'', OtherDtype)]"

subsection \<open>The column catalog\<close>

text \<open>
  The specification speaks of a catalog of temporal, categorical and numeric columns.
  In the source these are the three cases of lines 218 to 223: a column is temporal
  when its dtype is a datetime, categorical when it is \<^verbatim>\<open>object\<close>, numeric otherwise.
\<close>

definition temporal_columns :: "frame \<Rightarrow> string set" where
  "temporal_columns df = {c. df c = Some Datetime64}"

definition categorical_columns :: "frame \<Rightarrow> string set" where
  "categorical_columns df = {c. df c = Some Object}"

definition numeric_columns :: "frame \<Rightarrow> string set" where
  "numeric_columns df = {c. df c = Some OtherDtype}"

definition known_columns :: "frame \<Rightarrow> string set" where
  "known_columns df = numeric_columns df \<union> categorical_columns df \<union> temporal_columns df"

text \<open>A decoded value names a known column when it is a string of the catalog.\<close>

definition is_column :: "frame \<Rightarrow> json \<Rightarrow> bool" where
  "is_column df v = (case v of JString s \<Rightarrow> s \<in> known_columns df | _ \<Rightarrow> False)"

subsection \<open>Sample replies\<close>

text \<open>
  Replies of the model used in the examples below, each with the value \<^verbatim>\<open>json.loads\<close>
  returns for the slice the handler cuts out of it.
\<close>

definition reply_fenced :: string where
  \<open>reply_fenced =
     ''Sure! ```json\<newline>{"chart_type":"bar","x":"Category","y":"Sales"}\<newline>```''\<close>

definition fenced_object :: string where
  \<open>fenced_object = ''{"chart_type":"bar","x":"Category","y":"Sales"}''\<close>

definition reply_unknown_y :: string where
  \<open>reply_unknown_y = ''{"x": "Category", "y": "NotAColumn"}''\<close>

definition reply_list_x :: string where
  \<open>reply_list_x = ''{"x": ["Category"], "y": "Sales"}''\<close>

definition reply_median :: string where
  \<open>reply_median = ''{"x":"Category","y":"Sales","color":"NotReal","aggregate":"median"}''\<close>

definition reply_null_aggregate :: string where
  \<open>reply_null_aggregate = ''{"x":"Category","y":"Sales","aggregate":null}''\<close>

definition reply_profit_by_region :: string where
  \<open>reply_profit_by_region =
     ''{"chart_type":"bar","x":"Region","y":"Profit","color":null,"aggregate":null}''\<close>

definition reply_list_color :: string where
  \<open>reply_list_color = ''{"x":"Category","y":"Sales","color":["Region"]}''\<close>

definition reply_monthly_line :: string where
  \<open>reply_monthly_line =
     ''{"chart_type":"line","x":"Order Date","y":"Sales","aggregate":"sum","color":null}''\<close>

definition reply_reversed :: string where
  "reply_reversed = ''} text {''"

definition decoded_replies :: "(string \<times> json) list" where
  \<open>decoded_replies =
     [(fenced_object,
       JObject [(''chart_type'', JString ''bar''), (''x'', JString ''Category''),
                (''y'', JString ''Sales'')]),
      (reply_unknown_y,
       JObject [(''x'', JString ''Category''), (''y'', JString ''NotAColumn'')]),
      (reply_list_x,
       JObject [(''x'', JArray [JString ''Category'']), (''y'', JString ''Sales'')]),
      (reply_median,
       JObject [(''x'', JString ''Category''), (''y'', JString ''Sales''),
                (''color'', JString ''NotReal''), (''aggregate'', JString ''median'')]),
      (reply_null_aggregate,
       JObject [(''x'', JString ''Category''), (''y'', JString ''Sales''),
                (''aggregate'', JNull)]),
      (reply_profit_by_region,
       JObject [(''chart_type'', JString ''bar''), (''x'', JString ''Region''),
                (''y'', JString ''Profit''), (''color'', JNull), (''aggregate'', JNull)]),
      (reply_list_color,
       JObject [(''x'', JString ''Category''), (''y'', JString ''Sales''),
                (''color'', JArray [JString ''Region''])]),
      (reply_monthly_line,
       JObject [(''chart_type'', JString ''line''), (''x'', JString ''Order Date''),
                (''y'', JString ''Sales''), (''aggregate'', JString ''sum''),
                (''color'', JNull)])]\<close>

text \<open>
  The decoder of the examples: \<^verbatim>\<open>json.loads\<close> on the texts above. The empty text, like
  every text that is not listed, is reported as an error; \<^verbatim>\<open>json.loads("")\<close> raises
  \<^verbatim>\<open>Expecting value: line 1 column 1 (char 0)\<close>.
\<close>

definition loads_sample :: decoder where
  "loads_sample s =
     (case map_of decoded_replies s of
        Some v \<Rightarrow> Inr v
      | None \<Rightarrow> Inl ''Expecting value: line 1 column 1 (char 0)'')"

section \<open>Auxiliary facts\<close>

subsection \<open>Membership in the columns\<close>

lemma known_columns_dom: "known_columns df = dom df"
proof -
  have "\<And>c d. df c = Some d \<Longrightarrow> d = OtherDtype \<or> d = Object \<or> d = Datetime64"
    by (metis dtype.exhaust)
  then show ?thesis
    unfolding known_columns_def numeric_columns_def categorical_columns_def
      temporal_columns_def by auto
qed

lemma in_columns_eq:
  "in_columns df v = (if hashable v then Inr (is_column df v) else Inl TypeError)"
  by (cases v) (simp_all add: in_columns_def is_column_def known_columns_dom dom_def)

lemma is_column_hashable: "is_column df v \<Longrightarrow> hashable v"
  by (cases v) (simp_all add: is_column_def)

lemma is_column_string: "is_column df v \<Longrightarrow> \<exists>s. v = JString s \<and> s \<in> known_columns df"
  by (cases v) (simp_all add: is_column_def)

lemma fields_invalid_eq:
  "fields_invalid df xv yv =
     (if \<not> hashable xv then Inl TypeError
      else if \<not> is_column df xv then Inr True
      else if \<not> hashable yv then Inl TypeError
      else Inr (\<not> is_column df yv))"
  by (simp add: fields_invalid_def in_columns_eq)

lemma render_rejects:
  assumes "\<not> (is_column df (f_x f) \<and> is_column df (f_y f))"
  shows "render df q f =
           Inl (if \<not> hashable (f_x f) \<or> (is_column df (f_x f) \<and> \<not> hashable (f_y f))
                then TypeError else InvalidFields (f_x f) (f_y f))"
  using assms by (auto simp: render_def fields_invalid_eq)

lemma render_accepts:
  assumes "f_x f = JString xs" and "f_y f = JString ys"
    and "is_column df (f_x f)" and "is_column df (f_y f)"
  shows "render df q f =
           (case y_encoding (f_agg f) ys of
              Inl e \<Rightarrow> Inl e
            | Inr ye \<Rightarrow>
                (case color_encoding df (f_color f) of
                   Inl e \<Rightarrow> Inl e
                 | Inr ce \<Rightarrow>
                     Inr \<lparr> mark = base_chart (f_chart_type f), enc_x = x_encoding df xs,
                           enc_y = ye, enc_color = ce, height = 350,
                           title = ''Gemini chart: '' @ q \<rparr>))"
  using assms by (simp add: render_def fields_invalid_eq)

lemma render_Inr_columns:
  assumes "render df q f = Inr c"
  shows "is_column df (f_x f) \<and> is_column df (f_y f)"
proof (rule ccontr)
  assume "\<not> ?thesis"
  then have "\<exists>e. render df q f = Inl e" using render_rejects by blast
  with assms show False by auto
qed

subsection \<open>The gates before the decoder\<close>

lemma chart_spec_decoded:
  assumes "extract_json raw = Inr raw_json" and "loads raw_json = Inr (JObject spec)"
  shows "chart_spec loads df q raw = render df q (get_fields spec)"
  using assms by (simp add: chart_spec_def)

lemma strip_subset: "set (strip s) \<subseteq> set s"
proof
  fix c assume "c \<in> set (strip s)"
  then have "c \<in> set (dropWhile isspace (rev (dropWhile isspace s)))"
    by (simp add: strip_def)
  then have "c \<in> set (rev (dropWhile isspace s))" by (rule set_dropWhileD)
  then have "c \<in> set (dropWhile isspace s)" by simp
  then show "c \<in> set s" by (rule set_dropWhileD)
qed

lemma dropWhile_keeps: "\<not> P c \<Longrightarrow> c \<in> set s \<Longrightarrow> c \<in> set (dropWhile P s)"
  by (induction s) auto

lemma strip_keeps: "\<not> isspace c \<Longrightarrow> c \<in> set s \<Longrightarrow> c \<in> set (strip s)"
  by (simp add: strip_def dropWhile_keeps)

lemma brace_not_space: "\<not> isspace (CHR ''{'')" "\<not> isspace (CHR ''}'')"
  by (simp_all add: isspace_def)

lemma strip_brace:
  "CHR ''{'' \<in> set (strip s) \<longleftrightarrow> CHR ''{'' \<in> set s"
  "CHR ''}'' \<in> set (strip s) \<longleftrightarrow> CHR ''}'' \<in> set s"
  using strip_subset strip_keeps brace_not_space by blast+

lemma takeWhile_stops: "c \<in> set s \<Longrightarrow> length (takeWhile (\<lambda>d. d \<noteq> c) s) < length s"
  by (induction s) auto

lemma find_char_absent: "find_char s c = - 1 \<longleftrightarrow> c \<notin> set s"
  by (simp add: find_char_def)

lemma find_char_range: "c \<in> set s \<Longrightarrow> 0 \<le> find_char s c \<and> find_char s c < int (length s)"
  using takeWhile_stops [of c s] by (simp add: find_char_def)

lemma rfind_char_range: "c \<in> set s \<Longrightarrow> 0 \<le> rfind_char s c \<and> rfind_char s c < int (length s)"
  using takeWhile_stops [of c "rev s"] by (simp add: rfind_char_def)

lemma rfind_char_absent: "rfind_char s c = - 1 \<longleftrightarrow> c \<notin> set s"
proof (cases "c \<in> set s")
  case True
  then show ?thesis using rfind_char_range [of c s] by auto
next
  case False
  then show ?thesis by (simp add: rfind_char_def)
qed

lemma slice_empty: "0 \<le> i \<Longrightarrow> j \<le> i \<Longrightarrow> 0 \<le> j \<Longrightarrow> slice s i j = []"
  by (simp add: slice_def Let_def min_def max_def)

subsection \<open>The sample replies, evaluated\<close>

lemmas reply_defs = reply_fenced_def fenced_object_def reply_unknown_y_def reply_list_x_def
  reply_median_def reply_null_aggregate_def reply_profit_by_region_def
  reply_list_color_def reply_monthly_line_def reply_reversed_def

lemmas string_defs = extract_json_def strip_def isspace_def find_char_def rfind_char_def
  slice_def

lemmas render_defs = render_def fields_invalid_def in_columns_def y_encoding_def
  color_encoding_def base_chart_def x_encoding_def get_fields_def get_def orders_def

lemma codes_join: "codes a @ codes b = codes (a @ b)"
  by (simp add: codes_def)

lemma capitalize_sum: "capitalize ''sum'' = codes ''Sum''"
  by code_simp

lemma capitalize_median: "capitalize ''median'' = codes ''Median''"
  by code_simp

lemma extract_reply_fenced: "extract_json (strip reply_fenced) = Inr fenced_object"
  by (simp add: reply_defs string_defs)

lemma extract_reply_unknown_y: "extract_json (strip reply_unknown_y) = Inr reply_unknown_y"
  by (simp add: reply_defs string_defs)

lemma extract_reply_list_x: "extract_json (strip reply_list_x) = Inr reply_list_x"
  by (simp add: reply_defs string_defs)

lemma extract_reply_median: "extract_json (strip reply_median) = Inr reply_median"
  by (simp add: reply_defs string_defs)

lemma extract_reply_null_aggregate:
  "extract_json (strip reply_null_aggregate) = Inr reply_null_aggregate"
  by (simp add: reply_defs string_defs)

lemma extract_reply_profit_by_region:
  "extract_json (strip reply_profit_by_region) = Inr reply_profit_by_region"
  by (simp add: reply_defs string_defs)

lemma extract_reply_list_color: "extract_json (strip reply_list_color) = Inr reply_list_color"
  by (simp add: reply_defs string_defs)

lemma extract_reply_monthly_line:
  "extract_json (strip reply_monthly_line) = Inr reply_monthly_line"
  by (simp add: reply_defs string_defs)

lemma loads_fenced_object:
  "loads_sample fenced_object =
     Inr (JObject [(''chart_type'', JString ''bar''), (''x'', JString ''Category''),
                   (''y'', JString ''Sales'')])"
  by (simp add: loads_sample_def decoded_replies_def)

lemma loads_reply_unknown_y:
  "loads_sample reply_unknown_y =
     Inr (JObject [(''x'', JString ''Category''), (''y'', JString ''NotAColumn'')])"
  by (simp add: loads_sample_def decoded_replies_def reply_defs)

lemma loads_reply_list_x:
  "loads_sample reply_list_x =
     Inr (JObject [(''x'', JArray [JString ''Category'']), (''y'', JString ''Sales'')])"
  by (simp add: loads_sample_def decoded_replies_def reply_defs)

lemma loads_reply_median:
  "loads_sample reply_median =
     Inr (JObject [(''x'', JString ''Category''), (''y'', JString ''Sales''),
                   (''color'', JString ''NotReal''), (''aggregate'', JString ''median'')])"
  by (simp add: loads_sample_def decoded_replies_def reply_defs)

lemma loads_reply_null_aggregate:
  "loads_sample reply_null_aggregate =
     Inr (JObject [(''x'', JString ''Category''), (''y'', JString ''Sales''),
                   (''aggregate'', JNull)])"
  by (simp add: loads_sample_def decoded_replies_def reply_defs)

lemma loads_reply_profit_by_region:
  "loads_sample reply_profit_by_region =
     Inr (JObject [(''chart_type'', JString ''bar''), (''x'', JString ''Region''),
                   (''y'', JString ''Profit''), (''color'', JNull), (''aggregate'', JNull)])"
  by (simp add: loads_sample_def decoded_replies_def reply_defs)

lemma loads_reply_list_color:
  "loads_sample reply_list_color =
     Inr (JObject [(''x'', JString ''Category''), (''y'', JString ''Sales''),
                   (''color'', JArray [JString ''Region''])])"
  by (simp add: loads_sample_def decoded_replies_def reply_defs)

lemma loads_reply_monthly_line:
  "loads_sample reply_monthly_line =
     Inr (JObject [(''chart_type'', JString ''line''), (''x'', JString ''Order Date''),
                   (''y'', JString ''Sales''), (''aggregate'', JString ''sum''),
                   (''color'', JNull)])"
  by (simp add: loads_sample_def decoded_replies_def reply_defs)

lemma orders_columns:
  "is_column orders (JString ''Category'')" "is_column orders (JString ''Sales'')"
  "is_column orders (JString ''Region'')" "is_column orders (JString ''Profit'')"
  "is_column orders (JString ''Order Date'')" "is_column orders (JString ''Discount'')"
  "\<not> is_column orders (JString ''NotAColumn'')" "\<not> is_column orders (JString ''NotReal'')"
  by (simp_all add: is_column_def known_columns_dom dom_def orders_def)

subsection \<open>The y channel and the colour channel\<close>

lemma falsy_values:
  "(\<not> truthy v) =
     (v = JNull \<or> v = JBool False \<or> v = JInt 0 \<or> v = JFloat 0 \<or> v = JString [] \<or>
      v = JArray [] \<or> v = JObject [])"
  by (cases v) auto

lemma y_encoding_string:
  "a \<noteq> [] \<Longrightarrow>
   y_encoding (JString a) ys =
     Inr (a @ ''('' @ ys @ ''):Q'', capitalize a @ codes '' of '' @ codes ys)"
  by (simp add: y_encoding_def)

lemma y_encoding_falsy:
  "\<not> truthy agg \<Longrightarrow> y_encoding agg ys = Inr (ys @ ''):Q'', codes ys)"
  by (simp add: y_encoding_def)

lemma y_encoding_Inr:
  assumes "y_encoding agg ys = Inr ye"
  shows "(\<not> truthy agg \<and> ye = (ys @ ''):Q'', codes ys)) \<or>
         (\<exists>a. agg = JString a \<and> a \<noteq> [] \<and>
              ye = (a @ ''('' @ ys @ ''):Q'', capitalize a @ codes '' of '' @ codes ys))"
  using assms by (cases agg) (auto simp: y_encoding_def split: if_splits)

lemma aggregated_differs: "a \<noteq> [] \<Longrightarrow> a @ ''('' @ ys @ ''):Q'' \<noteq> ys @ ''):Q''"
proof
  assume "a \<noteq> []" and "a @ ''('' @ ys @ ''):Q'' = ys @ ''):Q''"
  then have "length (a @ ''('' @ ys @ ''):Q'') = length (ys @ ''):Q'')" by simp
  with \<open>a \<noteq> []\<close> show False by simp
qed

lemma render_Inr_shape:
  assumes "render df q f = Inr c"
  shows "\<exists>xs ys ye ce. f_x f = JString xs \<and> f_y f = JString ys \<and>
           xs \<in> known_columns df \<and> ys \<in> known_columns df \<and>
           y_encoding (f_agg f) ys = Inr ye \<and> color_encoding df (f_color f) = Inr ce \<and>
           c = \<lparr> mark = base_chart (f_chart_type f), enc_x = x_encoding df xs,
                 enc_y = ye, enc_color = ce, height = 350,
                 title = ''Gemini chart: '' @ q \<rparr>"
proof -
  from assms have cols: "is_column df (f_x f)" "is_column df (f_y f)"
    using render_Inr_columns by blast+
  then obtain xs ys where xy: "f_x f = JString xs" "f_y f = JString ys"
      "xs \<in> known_columns df" "ys \<in> known_columns df"
    using is_column_string by blast
  from assms render_accepts [OF xy(1,2) cols, of q] xy(3,4) xy(1,2)
  show ?thesis
    by (auto split: sum.splits)
qed

lemma color_encoding_unknown:
  assumes "\<not> is_column df color" and "hashable color \<or> \<not> truthy color"
  shows "color_encoding df color = Inr None"
  using assms by (cases color) (auto simp: color_encoding_def in_columns_eq)

lemma color_encoding_null: "color_encoding df JNull = Inr None"
  by (simp add: color_encoding_def)

lemma render_eq_Inr:
  assumes "f_x f = JString xs" and "f_y f = JString ys"
    and "xs \<in> known_columns df" and "ys \<in> known_columns df"
    and "y_encoding (f_agg f) ys = Inr ye" and "color_encoding df (f_color f) = Inr ce"
  shows "render df q f =
           Inr \<lparr> mark = base_chart (f_chart_type f), enc_x = x_encoding df xs,
                 enc_y = ye, enc_color = ce, height = 350,
                 title = ''Gemini chart: '' @ q \<rparr>"
proof -
  have "is_column df (f_x f)" "is_column df (f_y f)"
    using assms(1-4) by (simp_all add: is_column_def)
  from render_accepts [OF assms(1,2) this, of q] assms(5,6) show ?thesis by simp
qed

subsection \<open>The chart type and the x channel\<close>

lemma get_absent: "map_of spec k = None \<Longrightarrow> get spec k d = d"
  by (simp add: get_def)

lemma base_chart_fallback:
  "v \<noteq> JString ''line'' \<Longrightarrow> v \<noteq> JString ''scatter'' \<Longrightarrow> base_chart v = MarkBar"
  by (simp add: base_chart_def)

lemma render_chart_type:
  "render df q (f\<lparr>f_chart_type := v\<rparr>) =
     (case render df q f of Inl e \<Rightarrow> Inl e | Inr c \<Rightarrow> Inr (c\<lparr>mark := base_chart v\<rparr>))"
  by (simp add: render_def split: sum.splits bool.splits prod.splits json.splits)

lemma x_encoding_level:
  "xs \<in> temporal_columns df \<Longrightarrow> x_encoding df xs = xs @ '':T''"
  "xs \<in> categorical_columns df \<Longrightarrow> x_encoding df xs = xs @ '':N''"
  "xs \<in> numeric_columns df \<Longrightarrow> x_encoding df xs = xs @ '':Q''"
  by (simp_all add: x_encoding_def temporal_columns_def categorical_columns_def
      numeric_columns_def)

section \<open>The gates\<close>

text \<open>
  Claim C5. When the reply of the model, stripped, is empty, the handler fails with
  \<open>EmptyResponse\<close>. Otherwise, when the reply holds no \<open>{\<close> or no \<open>}\<close>, it fails with
  \<open>NoJsonFound\<close>. Both hold whatever the decoder is, so the two gates come before the
  decoding, and the empty reply, which has no brace either, is reported as empty: the
  empty check is the first.
\<close>

theorem empty_and_extraction_gates:
  "(strip text = [] \<longrightarrow> chart_spec loads df q (strip text) = Inl EmptyResponse) \<and>
   (strip text \<noteq> [] \<and> (CHR ''{'' \<notin> set text \<or> CHR ''}'' \<notin> set text) \<longrightarrow>
      chart_spec loads df q (strip text) = Inl NoJsonFound)"
proof (intro conjI impI)
  assume "strip text = []"
  then show "chart_spec loads df q (strip text) = Inl EmptyResponse"
    by (simp add: chart_spec_def extract_json_def)
next
  assume a: "strip text \<noteq> [] \<and> (CHR ''{'' \<notin> set text \<or> CHR ''}'' \<notin> set text)"
  then have "find_char (strip text) (CHR ''{'') = - 1 \<or> rfind_char (strip text) (CHR ''}'') = - 1"
    by (simp add: find_char_absent rfind_char_absent strip_brace)
  with a have "extract_json (strip text) = Inl NoJsonFound"
    by (auto simp: extract_json_def Let_def)
  then show "chart_spec loads df q (strip text) = Inl NoJsonFound"
    by (simp add: chart_spec_def)
qed

theorem empty_and_extraction_gates_witness:
  "chart_spec loads_sample orders ''chart'' (strip '' '') = Inl EmptyResponse \<and>
   chart_spec loads_sample orders ''chart'' (strip ''no braces here'') = Inl NoJsonFound"
proof -
  have e: "strip '' '' = []" by (simp add: strip_def isspace_def)
  have n: "strip ''no braces here'' \<noteq> [] \<and>
      (CHR ''{'' \<notin> set ''no braces here'' \<or> CHR ''}'' \<notin> set ''no braces here'')"
    by (simp add: strip_def isspace_def)
  from empty_and_extraction_gates [of "'' ''" loads_sample orders "''chart''"] e
  have 1: "chart_spec loads_sample orders ''chart'' (strip '' '') = Inl EmptyResponse"
    by blast
  from empty_and_extraction_gates [of "''no braces here''" loads_sample orders "''chart''"] n
  have 2: "chart_spec loads_sample orders ''chart'' (strip ''no braces here'') = Inl NoJsonFound"
    by blast
  from 1 2 show ?thesis by (rule conjI)
qed

text \<open>
  Claim C10. When the reply holds both braces but its last \<open>}\<close> comes before its first
  \<open>{\<close>, the extraction does not fail: the slice is the empty string, and the request
  fails in the decoder, which rejects the empty text, with \<open>MalformedJson\<close>.
\<close>

theorem reversed_braces_reach_decoder:
  assumes "CHR ''{'' \<in> set raw" and "CHR ''}'' \<in> set raw"
    and "rfind_char raw (CHR ''}'') < find_char raw (CHR ''{'')"
    and "loads [] = Inl msg"
  shows "extract_json raw = Inr [] \<and> chart_spec loads df q raw = Inl (MalformedJson msg)"
proof -
  from assms(1) have ne: "raw \<noteq> []" by auto
  from assms(1) have s: "0 \<le> find_char raw (CHR ''{'')" using find_char_range by blast
  from assms(2) have e: "0 \<le> rfind_char raw (CHR ''}'')" using rfind_char_range by blast
  have "slice raw (find_char raw (CHR ''{'')) (rfind_char raw (CHR ''}'') + 1) = []"
    using s e assms(3) by (intro slice_empty) auto
  moreover have "find_char raw (CHR ''{'') \<noteq> - 1" "rfind_char raw (CHR ''}'') \<noteq> - 1"
    using s e by auto
  ultimately have x: "extract_json raw = Inr []"
    using ne by (simp add: extract_json_def Let_def)
  then show ?thesis using assms(4) by (simp add: chart_spec_def)
qed

theorem reversed_braces_reach_decoder_witness:
  "extract_json reply_reversed = Inr [] \<and>
   chart_spec loads_sample orders ''chart'' reply_reversed =
     Inl (MalformedJson ''Expecting value: line 1 column 1 (char 0)'')"
proof -
  have 1: "CHR ''{'' \<in> set reply_reversed" by (simp add: reply_reversed_def)
  have 2: "CHR ''}'' \<in> set reply_reversed" by (simp add: reply_reversed_def)
  have 3: "rfind_char reply_reversed (CHR ''}'') < find_char reply_reversed (CHR ''{'')"
    by (simp add: reply_reversed_def rfind_char_def find_char_def)
  have 4: "loads_sample [] = Inl ''Expecting value: line 1 column 1 (char 0)''"
    by (simp add: loads_sample_def decoded_replies_def reply_unknown_y_def reply_list_x_def
        reply_median_def reply_null_aggregate_def reply_profit_by_region_def
        reply_list_color_def reply_monthly_line_def fenced_object_def)
  show ?thesis
    by (rule reversed_braces_reach_decoder
        [where loads = loads_sample and df = orders and q = "''chart''", OF 1 2 3 4])
qed

section \<open>Column validation\<close>

text \<open>
  Claim C1. For a reply that passes the empty, extraction and decoding gates, \<^verbatim>\<open>x\<close> and
  \<^verbatim>\<open>y\<close> must both name known columns; when one does not, the request is to fail with
  the message of line 213, which names the fields. The reply whose \<^verbatim>\<open>x\<close> is the list
  holding \<^verbatim>\<open>Category\<close> passes the three gates, and its \<^verbatim>\<open>x\<close> is no known column. The
  handler does not reach line 213: the membership test of line 212 raises on the list,
  and the request ends as a \<open>TypeError\<close> in the handler of line 251. A string that is
  no column, as in the second reply, gets the message of line 213.
\<close>

theorem column_validation_list_x:
  "extract_json (strip reply_list_x) = Inr reply_list_x \<and>
   loads_sample reply_list_x =
     Inr (JObject [(''x'', JArray [JString ''Category'']), (''y'', JString ''Sales'')]) \<and>
   \<not> is_column orders (JArray [JString ''Category'']) \<and>
   chart_spec loads_sample orders ''chart'' (strip reply_list_x) = Inl TypeError \<and>
   chart_spec loads_sample orders ''chart'' (strip reply_unknown_y) =
     Inl (InvalidFields (JString ''Category'') (JString ''NotAColumn''))"
  by (simp add: extract_reply_list_x loads_reply_list_x extract_reply_unknown_y
      loads_reply_unknown_y chart_spec_def render_defs is_column_def)

section \<open>The aggregate\<close>

text \<open>
  Claim C2, as amended. An aggregate that is a non-empty string is never nulled, be it
  \<^verbatim>\<open>sum\<close>, \<^verbatim>\<open>mean\<close>, \<^verbatim>\<open>count\<close> or any other word such as \<^verbatim>\<open>median\<close>. It is no ground
  for rejection and it is kept as it is: the chart is the one the same object gives
  with a null aggregate, except for the y channel, whose shorthand is the aggregate
  applied to the y column at the quantitative level and whose title is the capitalized
  aggregate, \<^verbatim>\<open>of\<close>, and the y column.
\<close>

theorem aggregate_string_kept:
  assumes "f_agg (get_fields spec) = JString a" and "a \<noteq> []"
    and "f_y (get_fields spec) = JString ys"
    and "render df q ((get_fields spec)\<lparr>f_agg := JNull\<rparr>) = Inr c0"
  shows "render df q (get_fields spec) =
           Inr (c0\<lparr>enc_y := (a @ ''('' @ ys @ ''):Q'',
                             capitalize a @ codes '' of '' @ codes ys)\<rparr>)"
proof -
  let ?f = "get_fields spec"
  from render_Inr_shape [OF assms(4)] assms(3)
  obtain xs ye ce where sh: "f_x ?f = JString xs" "xs \<in> known_columns df"
      "ys \<in> known_columns df" "color_encoding df (f_color ?f) = Inr ce"
      "c0 = \<lparr> mark = base_chart (f_chart_type ?f), enc_x = x_encoding df xs,
              enc_y = ye, enc_color = ce, height = 350, title = ''Gemini chart: '' @ q \<rparr>"
    by auto
  have "y_encoding (f_agg ?f) ys =
          Inr (a @ ''('' @ ys @ ''):Q'', capitalize a @ codes '' of '' @ codes ys)"
    using assms(1,2) by (simp add: y_encoding_string)
  from render_eq_Inr [OF sh(1) assms(3) sh(2,3) this sh(4), of q] sh(5)
  show ?thesis by simp
qed

theorem aggregate_string_kept_witness:
  "render orders ''chart''
     (get_fields [(''x'', JString ''Category''), (''y'', JString ''Sales''),
                  (''color'', JString ''NotReal''), (''aggregate'', JString ''median'')]) =
   Inr \<lparr> mark = MarkBar, enc_x = ''Category:N'',
         enc_y = (''median(Sales):Q'', codes ''Median of Sales''), enc_color = None,
         height = 350, title = ''Gemini chart: chart'' \<rparr>"
proof -
  let ?spec = "[(''x'', JString ''Category''), (''y'', JString ''Sales''),
                (''color'', JString ''NotReal''), (''aggregate'', JString ''median'')]"
  have 1: "f_agg (get_fields ?spec) = JString ''median''"
    by (simp add: get_fields_def get_def)
  have 2: "''median'' \<noteq> []" by simp
  have 3: "f_y (get_fields ?spec) = JString ''Sales''"
    by (simp add: get_fields_def get_def)
  have 4: "render orders ''chart'' ((get_fields ?spec)\<lparr>f_agg := JNull\<rparr>) =
      Inr \<lparr> mark = MarkBar, enc_x = ''Category:N'', enc_y = (''Sales):Q'', codes ''Sales''),
            enc_color = None, height = 350, title = ''Gemini chart: chart'' \<rparr>"
    by (simp add: render_defs)
  from aggregate_string_kept [OF 1 2 3 4] show ?thesis
    by (simp add: capitalize_median codes_join del: capitalize.simps)
qed

text \<open>
  The claim as stated has the aggregate \<^verbatim>\<open>median\<close> replaced by null. On the reply of
  the specification the chart aggregates by \<^verbatim>\<open>median\<close>, and its y channel is not the
  one of a null aggregate.
\<close>

theorem aggregate_median_counterexample:
  "chart_spec loads_sample orders ''chart'' (strip reply_median) =
     Inr \<lparr> mark = MarkBar, enc_x = ''Category:N'',
           enc_y = (''median(Sales):Q'', codes ''Median of Sales''), enc_color = None,
           height = 350, title = ''Gemini chart: chart'' \<rparr> \<and>
   y_encoding (JString ''median'') ''Sales'' \<noteq> y_encoding JNull ''Sales''"
  by (simp add: chart_spec_def extract_reply_median loads_reply_median render_defs
      capitalize_median codes_join del: capitalize.simps)

text \<open>
  Claim C3, as amended. At the y channel the branch without aggregation, the one of
  line 229, is taken exactly when the aggregate is falsy: null, false, zero, the empty
  string, the empty array or the empty object. It is not taken when the key
  \<^verbatim>\<open>aggregate\<close> is absent: then the default \<^verbatim>\<open>sum\<close> applies and the channel aggregates.
  The handler comes to the y channel as soon as \<^verbatim>\<open>x\<close> and \<^verbatim>\<open>y\<close> are known columns
  (\<open>render_accepts\<close>), whatever the colour and the aggregate are.
\<close>

theorem aggregate_less_branch_reached:
  "(y_encoding agg ys = Inr (ys @ ''):Q'', codes ys)) = (\<not> truthy agg) \<and>
   (\<not> truthy agg) =
     (agg = JNull \<or> agg = JBool False \<or> agg = JInt 0 \<or> agg = JFloat 0 \<or>
      agg = JString [] \<or> agg = JArray [] \<or> agg = JObject []) \<and>
   (map_of spec ''aggregate'' = None \<longrightarrow>
      truthy (f_agg (get_fields spec)) \<and>
      y_encoding (f_agg (get_fields spec)) ys =
        Inr (''sum('' @ ys @ ''):Q'', codes ''Sum of '' @ codes ys))"
proof -
  have a: "(y_encoding agg ys = Inr (ys @ ''):Q'', codes ys)) = (\<not> truthy agg)"
  proof
    assume "y_encoding agg ys = Inr (ys @ ''):Q'', codes ys)"
    from y_encoding_Inr [OF this] show "\<not> truthy agg"
      using aggregated_differs [of _ ys] by auto
  next
    assume "\<not> truthy agg"
    then show "y_encoding agg ys = Inr (ys @ ''):Q'', codes ys)"
      by (rule y_encoding_falsy)
  qed
  have b: "map_of spec ''aggregate'' = None \<longrightarrow>
      truthy (f_agg (get_fields spec)) \<and>
      y_encoding (f_agg (get_fields spec)) ys =
        Inr (''sum('' @ ys @ ''):Q'', codes ''Sum of '' @ codes ys)"
  proof
    assume "map_of spec ''aggregate'' = None"
    then have s: "f_agg (get_fields spec) = JString ''sum''"
      by (simp add: get_fields_def get_def)
    have "codes ''Sum'' @ codes '' of '' = codes ''Sum of ''"
      by (simp add: codes_join)
    then show "truthy (f_agg (get_fields spec)) \<and>
      y_encoding (f_agg (get_fields spec)) ys =
        Inr (''sum('' @ ys @ ''):Q'', codes ''Sum of '' @ codes ys)"
      unfolding s by (simp add: y_encoding_def capitalize_sum del: capitalize.simps)
  qed
  from a falsy_values [of agg] b show ?thesis by (intro conjI)
qed

theorem aggregate_less_branch_reached_witness:
  "y_encoding JNull ''Sales'' = Inr (''Sales):Q'', codes ''Sales'') \<and>
   y_encoding (f_agg (get_fields [(''chart_type'', JString ''bar''),
                                  (''x'', JString ''Category''), (''y'', JString ''Sales'')]))
     ''Sales'' = Inr (''sum(Sales):Q'', codes ''Sum of Sales'')"
proof -
  let ?spec = "[(''chart_type'', JString ''bar''), (''x'', JString ''Category''),
                (''y'', JString ''Sales'')]"
  note t = aggregate_less_branch_reached [of JNull "''Sales''" ?spec]
  have 0: "map_of ?spec ''aggregate'' = None" by simp
  have 1: "y_encoding JNull ''Sales'' = Inr (''Sales):Q'', codes ''Sales'')"
    using t by simp
  from t 0 have "y_encoding (f_agg (get_fields ?spec)) ''Sales'' =
      Inr (''sum('' @ ''Sales'' @ ''):Q'', codes ''Sum of '' @ codes ''Sales'')"
    by blast
  then have 2: "y_encoding (f_agg (get_fields ?spec)) ''Sales'' =
      Inr (''sum(Sales):Q'', codes ''Sum of Sales'')"
    by (simp add: codes_join)
  from 1 2 show ?thesis by (rule conjI)
qed

text \<open>
  The claim as stated has the branch without aggregation unreachable. The default only
  covers an absent key; a reply whose aggregate is null, a value the system prompt
  offers, reaches the branch.
\<close>

theorem aggregate_null_counterexample:
  "chart_spec loads_sample orders ''chart'' (strip reply_null_aggregate) =
     Inr \<lparr> mark = MarkBar, enc_x = ''Category:N'', enc_y = (''Sales):Q'', codes ''Sales''),
           enc_color = None, height = 350, title = ''Gemini chart: chart'' \<rparr> \<and>
   \<not> truthy (f_agg (get_fields [(''x'', JString ''Category''), (''y'', JString ''Sales''),
                                (''aggregate'', JNull)]))"
  by (simp add: chart_spec_def extract_reply_null_aggregate loads_reply_null_aggregate
      render_defs)

text \<open>
  Claim C4. With a null aggregate the y channel is to be the raw y column at the
  quantitative level, titled with the name of the column. On a reply with a null
  aggregate and the y column \<^verbatim>\<open>Profit\<close> line 229 builds the shorthand \<^verbatim>\<open>Profit):Q\<close>: the
  closing parenthesis of line 227 is left over, so the field of the channel is not the
  column \<^verbatim>\<open>Profit\<close>. The title is the name of the column.
\<close>

theorem raw_y_encoding_malformed:
  "chart_spec loads_sample orders ''chart'' (strip reply_profit_by_region) =
     Inr \<lparr> mark = MarkBar, enc_x = ''Region:N'', enc_y = (''Profit):Q'', codes ''Profit''),
           enc_color = None, height = 350, title = ''Gemini chart: chart'' \<rparr>"
  by (simp add: chart_spec_def extract_reply_profit_by_region loads_reply_profit_by_region
      render_defs)

section \<open>The colour\<close>

text \<open>
  Claim C7. A colour that is not null and not a known column is to be dropped without
  rejecting the request: the chart is drawn without a colour channel. The reply whose
  colour is the list holding \<^verbatim>\<open>Region\<close> has known columns for \<^verbatim>\<open>x\<close> and \<^verbatim>\<open>y\<close>, and
  its colour is neither null nor a known column. The handler draws no chart: the
  membership test of line 231 raises on the list, and the request ends as a
  \<open>TypeError\<close> in the handler of line 251. The string \<^verbatim>\<open>NotReal\<close> is dropped as the
  claim says.
\<close>

theorem color_list_rejected:
  "JArray [JString ''Region''] \<noteq> JNull \<and>
   \<not> is_column orders (JArray [JString ''Region'']) \<and>
   chart_spec loads_sample orders ''chart'' (strip reply_list_color) = Inl TypeError \<and>
   render orders ''chart''
     (get_fields [(''x'', JString ''Category''), (''y'', JString ''Sales''),
                  (''color'', JString ''NotReal'')]) =
     Inr \<lparr> mark = MarkBar, enc_x = ''Category:N'',
           enc_y = (''sum(Sales):Q'', codes ''Sum of Sales''), enc_color = None,
           height = 350, title = ''Gemini chart: chart'' \<rparr>"
  by (simp add: chart_spec_def extract_reply_list_color loads_reply_list_color render_defs
      is_column_def capitalize_sum codes_join del: capitalize.simps)

section \<open>Defaults and the mark\<close>

text \<open>
  Claim C6. A field that the decoded object lacks takes its default and is no error:
  \<^verbatim>\<open>chart_type\<close> becomes \<^verbatim>\<open>bar\<close>, \<^verbatim>\<open>x\<close> becomes \<^verbatim>\<open>Category\<close>, \<^verbatim>\<open>y\<close> becomes \<^verbatim>\<open>Sales\<close>,
  \<^verbatim>\<open>color\<close> becomes null and \<^verbatim>\<open>aggregate\<close> becomes \<^verbatim>\<open>sum\<close>. A chart type other than
  \<^verbatim>\<open>line\<close> and \<^verbatim>\<open>scatter\<close> is never a ground for rejection: the outcome is that of
  \<^verbatim>\<open>bar\<close>, and a chart that is drawn has the bar mark. The reply that wraps the object
  in prose and a fenced block, with only \<^verbatim>\<open>chart_type\<close>, \<^verbatim>\<open>x\<close> and \<^verbatim>\<open>y\<close>, is cut down
  to the object and yields the fields bar, Category, Sales, null, sum and the bar chart
  of the sum of Sales by Category.
\<close>

theorem defaults_fill_absent_fields:
  "(map_of spec ''chart_type'' = None \<longrightarrow> f_chart_type (get_fields spec) = JString ''bar'') \<and>
   (map_of spec ''x'' = None \<longrightarrow> f_x (get_fields spec) = JString ''Category'') \<and>
   (map_of spec ''y'' = None \<longrightarrow> f_y (get_fields spec) = JString ''Sales'') \<and>
   (map_of spec ''color'' = None \<longrightarrow> f_color (get_fields spec) = JNull) \<and>
   (map_of spec ''aggregate'' = None \<longrightarrow> f_agg (get_fields spec) = JString ''sum'') \<and>
   (v \<noteq> JString ''line'' \<and> v \<noteq> JString ''scatter'' \<longrightarrow>
      render df q (f\<lparr>f_chart_type := v\<rparr>) = render df q (f\<lparr>f_chart_type := JString ''bar''\<rparr>) \<and>
      (\<forall>c. render df q (f\<lparr>f_chart_type := v\<rparr>) = Inr c \<longrightarrow> mark c = MarkBar)) \<and>
   extract_json (strip reply_fenced) = Inr fenced_object \<and>
   (loads fenced_object =
      Inr (JObject [(''chart_type'', JString ''bar''), (''x'', JString ''Category''),
                    (''y'', JString ''Sales'')]) \<and>
    ''Category'' \<in> known_columns df \<and> ''Sales'' \<in> known_columns df \<longrightarrow>
      get_fields [(''chart_type'', JString ''bar''), (''x'', JString ''Category''),
                  (''y'', JString ''Sales'')] =
        \<lparr> f_chart_type = JString ''bar'', f_x = JString ''Category'',
          f_y = JString ''Sales'', f_color = JNull, f_agg = JString ''sum'' \<rparr> \<and>
      chart_spec loads df q (strip reply_fenced) =
        Inr \<lparr> mark = MarkBar, enc_x = x_encoding df ''Category'',
              enc_y = (''sum(Sales):Q'', codes ''Sum of Sales''), enc_color = None,
              height = 350, title = ''Gemini chart: '' @ q \<rparr>)"
proof -
  have d: "(map_of spec ''chart_type'' = None \<longrightarrow> f_chart_type (get_fields spec) = JString ''bar'')"
    "(map_of spec ''x'' = None \<longrightarrow> f_x (get_fields spec) = JString ''Category'')"
    "(map_of spec ''y'' = None \<longrightarrow> f_y (get_fields spec) = JString ''Sales'')"
    "(map_of spec ''color'' = None \<longrightarrow> f_color (get_fields spec) = JNull)"
    "(map_of spec ''aggregate'' = None \<longrightarrow> f_agg (get_fields spec) = JString ''sum'')"
    by (simp_all add: get_fields_def get_absent)
  have m: "v \<noteq> JString ''line'' \<and> v \<noteq> JString ''scatter'' \<longrightarrow>
      render df q (f\<lparr>f_chart_type := v\<rparr>) = render df q (f\<lparr>f_chart_type := JString ''bar''\<rparr>) \<and>
      (\<forall>c. render df q (f\<lparr>f_chart_type := v\<rparr>) = Inr c \<longrightarrow> mark c = MarkBar)"
    by (auto simp: render_chart_type base_chart_def split: sum.splits)
  let ?spec = "[(''chart_type'', JString ''bar''), (''x'', JString ''Category''),
                (''y'', JString ''Sales'')]"
  have g: "get_fields ?spec =
        \<lparr> f_chart_type = JString ''bar'', f_x = JString ''Category'',
          f_y = JString ''Sales'', f_color = JNull, f_agg = JString ''sum'' \<rparr>"
    by (simp add: get_fields_def get_def)
  have e: "loads fenced_object = Inr (JObject ?spec) \<and>
    ''Category'' \<in> known_columns df \<and> ''Sales'' \<in> known_columns df \<longrightarrow>
      get_fields ?spec =
        \<lparr> f_chart_type = JString ''bar'', f_x = JString ''Category'',
          f_y = JString ''Sales'', f_color = JNull, f_agg = JString ''sum'' \<rparr> \<and>
      chart_spec loads df q (strip reply_fenced) =
        Inr \<lparr> mark = MarkBar, enc_x = x_encoding df ''Category'',
              enc_y = (''sum(Sales):Q'', codes ''Sum of Sales''), enc_color = None,
              height = 350, title = ''Gemini chart: '' @ q \<rparr>"
  proof (intro impI conjI g)
    assume a: "loads fenced_object = Inr (JObject ?spec) \<and>
      ''Category'' \<in> known_columns df \<and> ''Sales'' \<in> known_columns df"
    then have l: "loads fenced_object = Inr (JObject ?spec)" by simp
    have "chart_spec loads df q (strip reply_fenced) = render df q (get_fields ?spec)"
      using extract_reply_fenced l by (rule chart_spec_decoded)
    also have "\<dots> = Inr \<lparr> mark = MarkBar, enc_x = x_encoding df ''Category'',
              enc_y = (''sum(Sales):Q'', codes ''Sum of Sales''), enc_color = None,
              height = 350, title = ''Gemini chart: '' @ q \<rparr>"
      unfolding g using a
      by (intro trans [OF render_eq_Inr [where xs = "''Category''" and ys = "''Sales''"
                and ye = "(''sum(Sales):Q'', codes ''Sum of Sales'')" and ce = None]])
         (simp_all add: y_encoding_def color_encoding_def base_chart_def capitalize_sum codes_join
            del: capitalize.simps)
    finally show "chart_spec loads df q (strip reply_fenced) =
        Inr \<lparr> mark = MarkBar, enc_x = x_encoding df ''Category'',
              enc_y = (''sum(Sales):Q'', codes ''Sum of Sales''), enc_color = None,
              height = 350, title = ''Gemini chart: '' @ q \<rparr>" .
  qed
  from d m extract_reply_fenced e show ?thesis by (intro conjI)
qed

theorem defaults_fill_absent_fields_witness:
  "get_fields [] =
     \<lparr> f_chart_type = JString ''bar'', f_x = JString ''Category'', f_y = JString ''Sales'',
       f_color = JNull, f_agg = JString ''sum'' \<rparr> \<and>
   render orders ''chart'' ((get_fields [])\<lparr>f_chart_type := JString ''pie''\<rparr>) =
     render orders ''chart'' ((get_fields [])\<lparr>f_chart_type := JString ''bar''\<rparr>) \<and>
   chart_spec loads_sample orders ''chart'' (strip reply_fenced) =
     Inr \<lparr> mark = MarkBar, enc_x = ''Category:N'',
           enc_y = (''sum(Sales):Q'', codes ''Sum of Sales''), enc_color = None,
           height = 350, title = ''Gemini chart: chart'' \<rparr>"
proof -
  note t = defaults_fill_absent_fields [where spec = "[]" and v = "JString ''pie''"
      and f = "get_fields []" and loads = loads_sample and df = orders and q = "''chart''"]
  have k: "''Category'' \<in> known_columns orders" "''Sales'' \<in> known_columns orders"
    by (simp_all add: known_columns_dom dom_def orders_def)
  have x: "x_encoding orders ''Category'' = ''Category:N''"
    by (simp add: x_encoding_def orders_def)
  have 1: "get_fields [] =
     \<lparr> f_chart_type = JString ''bar'', f_x = JString ''Category'', f_y = JString ''Sales'',
       f_color = JNull, f_agg = JString ''sum'' \<rparr>"
    using t by simp
  have 2: "render orders ''chart'' ((get_fields [])\<lparr>f_chart_type := JString ''pie''\<rparr>) =
     render orders ''chart'' ((get_fields [])\<lparr>f_chart_type := JString ''bar''\<rparr>)"
    using t by simp
  have 3: "chart_spec loads_sample orders ''chart'' (strip reply_fenced) =
     Inr \<lparr> mark = MarkBar, enc_x = ''Category:N'',
           enc_y = (''sum(Sales):Q'', codes ''Sum of Sales''), enc_color = None,
           height = 350, title = ''Gemini chart: chart'' \<rparr>"
    using t loads_fenced_object k by (simp add: x)
  from 1 2 3 show ?thesis by (intro conjI)
qed

section \<open>The x channel and the mark\<close>

text \<open>
  Claim C8. In every chart that is drawn the x channel has the level of the x column in
  the catalog: \<open>T\<close> for a temporal column, \<open>N\<close> for a categorical one, \<open>Q\<close> for a numeric
  one. The mark follows the chart type: \<^verbatim>\<open>line\<close> gives a line with point markers,
  \<^verbatim>\<open>scatter\<close> gives points, and every other value gives bars.
\<close>

theorem x_level_and_mark:
  assumes "render df q f = Inr c"
  shows "(\<exists>xs. f_x f = JString xs \<and> xs \<in> known_columns df \<and>
            (xs \<in> temporal_columns df \<longrightarrow> enc_x c = xs @ '':T'') \<and>
            (xs \<in> categorical_columns df \<longrightarrow> enc_x c = xs @ '':N'') \<and>
            (xs \<in> numeric_columns df \<longrightarrow> enc_x c = xs @ '':Q'')) \<and>
         (f_chart_type f = JString ''line'' \<longrightarrow> mark c = MarkLine True) \<and>
         (f_chart_type f = JString ''scatter'' \<longrightarrow> mark c = MarkPoint) \<and>
         (f_chart_type f \<noteq> JString ''line'' \<and> f_chart_type f \<noteq> JString ''scatter'' \<longrightarrow>
            mark c = MarkBar)"
proof -
  from render_Inr_shape [OF assms]
  obtain xs where sh: "f_x f = JString xs" "xs \<in> known_columns df"
      "enc_x c = x_encoding df xs" "mark c = base_chart (f_chart_type f)"
    by auto
  have x: "\<exists>xs. f_x f = JString xs \<and> xs \<in> known_columns df \<and>
            (xs \<in> temporal_columns df \<longrightarrow> enc_x c = xs @ '':T'') \<and>
            (xs \<in> categorical_columns df \<longrightarrow> enc_x c = xs @ '':N'') \<and>
            (xs \<in> numeric_columns df \<longrightarrow> enc_x c = xs @ '':Q'')"
    using sh(1,2,3) x_encoding_level [of xs df] by auto
  have m: "(f_chart_type f = JString ''line'' \<longrightarrow> mark c = MarkLine True) \<and>
         (f_chart_type f = JString ''scatter'' \<longrightarrow> mark c = MarkPoint) \<and>
         (f_chart_type f \<noteq> JString ''line'' \<and> f_chart_type f \<noteq> JString ''scatter'' \<longrightarrow>
            mark c = MarkBar)"
    using sh(4) by (simp add: base_chart_def)
  from x m show ?thesis by (rule conjI)
qed

theorem x_level_and_mark_witness:
  "render orders ''chart''
     (get_fields [(''chart_type'', JString ''line''), (''x'', JString ''Order Date''),
                  (''y'', JString ''Sales''), (''aggregate'', JString ''sum''),
                  (''color'', JNull)]) =
     Inr \<lparr> mark = MarkLine True, enc_x = ''Order Date:T'',
           enc_y = (''sum(Sales):Q'', codes ''Sum of Sales''), enc_color = None,
           height = 350, title = ''Gemini chart: chart'' \<rparr> \<and>
   ''Order Date'' \<in> temporal_columns orders \<and>
   f_chart_type
     (get_fields [(''chart_type'', JString ''line''), (''x'', JString ''Order Date''),
                  (''y'', JString ''Sales''), (''aggregate'', JString ''sum''),
                  (''color'', JNull)]) = JString ''line''"
proof -
  let ?f = "get_fields [(''chart_type'', JString ''line''), (''x'', JString ''Order Date''),
                  (''y'', JString ''Sales''), (''aggregate'', JString ''sum''),
                  (''color'', JNull)]"
  have 1: "render orders ''chart'' ?f =
     Inr \<lparr> mark = MarkLine True, enc_x = ''Order Date:T'',
           enc_y = (''sum(Sales):Q'', codes ''Sum of Sales''), enc_color = None,
           height = 350, title = ''Gemini chart: chart'' \<rparr>"
    by (simp add: render_defs capitalize_sum codes_join del: capitalize.simps)
  have 2: "''Order Date'' \<in> temporal_columns orders"
    by (simp add: temporal_columns_def orders_def)
  have 3: "f_chart_type ?f = JString ''line''"
    by (simp add: get_fields_def get_def)
  from x_level_and_mark [OF 1] 1 2 3 show ?thesis by simp
qed

end
